theory Spec2Isabelle
  imports Complex_Main "HOL-Library.Sublist"
begin

section \<open>Decoded JSON values and the Python operations the client applies to them\<close>

text \<open>
  \<^verbatim>\<open>response.json()\<close> yields Python objects: \<^verbatim>\<open>None\<close>, booleans, integers, floats, strings,
  lists and dicts with string keys. A dict is kept as an association list in insertion order;
  a lookup takes the first pair with the key. A float is kept as the rational it denotes; only
  its being zero or not is ever inspected. Strings are byte lists: the model is exact on ASCII.
\<close>

datatype json =
    JNull
  | JBool bool
  | JInt int
  | JFloat rat
  | JStr string
  | JArr "json list"
  | JObj "(string \<times> json) list"

text \<open>
  The exceptions that can arise in the modelled code. \<^verbatim>\<open>JSONDecodeError\<close> is a subclass of
  \<^verbatim>\<open>ValueError\<close>; \<^verbatim>\<open>GuardrailViolationError\<close> is a subclass of \<^verbatim>\<open>APIError\<close>; \<^verbatim>\<open>ConnectionError\<close>
  and \<^verbatim>\<open>Timeout\<close> are those of \<^verbatim>\<open>requests.exceptions\<close>, subclasses of \<^verbatim>\<open>RequestException\<close>.
\<close>

record guardrail_violation =
  gv_message :: string
  violations :: "json list"
  categories :: "(string \<times> bool) list"
  category_scores :: "(string \<times> rat) list"
  lakera_response :: "json option"

datatype exn =
    TypeError
  | AttributeError
  | KeyError
  | IndexError
  | ValueError
  | SyntaxError
  | JSONDecodeError
  | RecursionError
  | MemoryError
  | FileNotFoundError
  | RequestException
  | ConnectionError
  | Timeout
  | APIError string
  | GuardrailViolationError guardrail_violation

definition ebind :: "exn + 'a \<Rightarrow> ('a \<Rightarrow> exn + 'b) \<Rightarrow> exn + 'b" where
  "ebind m f = (case m of Inl e \<Rightarrow> Inl e | Inr x \<Rightarrow> f x)"

text \<open>Python truthiness (\<^verbatim>\<open>if x:\<close>).\<close>

fun truthy :: "json \<Rightarrow> bool" where
  "truthy JNull = False"
| "truthy (JBool b) = b"
| "truthy (JInt i) = (i \<noteq> 0)"
| "truthy (JFloat r) = (r \<noteq> 0)"
| "truthy (JStr s) = (s \<noteq> [])"
| "truthy (JArr xs) = (xs \<noteq> [])"
| "truthy (JObj kvs) = (kvs \<noteq> [])"

fun is_dict :: "json \<Rightarrow> bool" where
  "is_dict (JObj kvs) = True"
| "is_dict v = False"

text \<open>\<^verbatim>\<open>x.get(k, default)\<close>: only a dict has the method.\<close>

fun py_get :: "json \<Rightarrow> string \<Rightarrow> json \<Rightarrow> exn + json" where
  "py_get (JObj kvs) k d = Inr (case map_of kvs k of Some v \<Rightarrow> v | None \<Rightarrow> d)"
| "py_get v k d = Inl AttributeError"

text \<open>
  \<^verbatim>\<open>k in x\<close> for a string \<open>k\<close>: key membership in a dict, element membership in a list,
  substring test in a string; the other values are not containers.
\<close>

fun py_in :: "string \<Rightarrow> json \<Rightarrow> exn + bool" where
  "py_in k (JObj kvs) = Inr (k \<in> set (map fst kvs))"
| "py_in k (JArr xs) = Inr (JStr k \<in> set xs)"
| "py_in k (JStr s) = Inr (sublist k s)"
| "py_in k v = Inl TypeError"

text \<open>
  \<^verbatim>\<open>for x in v\<close>: the elements of a list, the keys of a dict, the characters of a string;
  the other values are not iterable.
\<close>

fun py_iter :: "json \<Rightarrow> exn + json list" where
  "py_iter (JArr xs) = Inr xs"
| "py_iter (JObj kvs) = Inr (map (\<lambda>kv. JStr (fst kv)) kvs)"
| "py_iter (JStr s) = Inr (map (\<lambda>c. JStr [c]) s)"
| "py_iter v = Inl TypeError"

text \<open>
  \<^verbatim>\<open>v[0]\<close>: the first element of a list or string (\<^verbatim>\<open>IndexError\<close> when empty); on a dict
  the integer key 0 is never among the string keys; the other values are not subscriptable.
\<close>

fun py_index0 :: "json \<Rightarrow> exn + json" where
  "py_index0 (JArr []) = Inl IndexError"
| "py_index0 (JArr (x # xs)) = Inr x"
| "py_index0 (JStr []) = Inl IndexError"
| "py_index0 (JStr (c # cs)) = Inr (JStr [c])"
| "py_index0 (JObj kvs) = Inl KeyError"
| "py_index0 v = Inl TypeError"

text \<open>\<^verbatim>\<open>v.items()\<close>: only a dict has the method.\<close>

fun py_items :: "json \<Rightarrow> exn + (string \<times> json) list" where
  "py_items (JObj kvs) = Inr kvs"
| "py_items v = Inl AttributeError"

text \<open>
  \<^verbatim>\<open>str(v)\<close>: the identity on a string. The text Python prints for any other object is a
  parameter \<open>repr\<close> of the model.
\<close>

fun py_str :: "(json \<Rightarrow> string) \<Rightarrow> json \<Rightarrow> string" where
  "py_str repr (JStr s) = s"
| "py_str repr v = repr v"

text \<open>\<^verbatim>\<open>str(n)\<close> for an integer: its decimal digits, with a minus sign when negative.\<close>

definition digit_char :: "nat \<Rightarrow> char" where
  "digit_char d = ''0123456789'' ! d"

fun str_nat :: "nat \<Rightarrow> string" where
  "str_nat n = (if n < 10 then [digit_char n] else str_nat (n div 10) @ [digit_char (n mod 10)])"

definition str_int :: "int \<Rightarrow> string" where
  "str_int i = (if i < 0 then CHR ''-'' # str_nat (nat (- i)) else str_nat (nat i))"

section \<open>The violation parser of \<^verbatim>\<open>ProxyClient.chat_completion\<close>\<close>

text \<open>
  The loop over a breakdown (client.py lines 82-85 and 109-112), appending to \<open>vs\<close>:
  \<^verbatim>\<open>
  for detector in breakdown:
      if detector.get("detected", False):
          detector_type = detector.get("detector_type", "unknown")
          violations.append(detector_type)
  \<close>
\<close>

fun collect_detected :: "json list \<Rightarrow> json list \<Rightarrow> exn + json list" where
  "collect_detected [] vs = Inr vs"
| "collect_detected (detector # rest) vs =
     (case py_get detector ''detected'' (JBool False) of
        Inl e \<Rightarrow> Inl e
      | Inr detected \<Rightarrow>
          if truthy detected then
            (case py_get detector ''detector_type'' (JStr ''unknown'') of
               Inl e \<Rightarrow> Inl e
             | Inr detector_type \<Rightarrow> collect_detected rest (vs @ [detector_type]))
          else collect_detected rest vs)"

text \<open>
  The locals of the parser: the violation list, the guardrail response kept for the error
  object, and the local \<^verbatim>\<open>category_scores\<close> of line 121 (\<open>None\<close>: never assigned).
\<close>

record parse_state =
  ps_violations :: "json list"
  ps_lakera_response :: "json option"
  ps_category_scores :: "json option"

definition initial_parse :: parse_state where
  "initial_parse = \<lparr>ps_violations = [], ps_lakera_response = None, ps_category_scores = None\<rparr>"

text \<open>
  Lines 80-85 (and 107-112) on a dict \<open>holder\<close> that has the key:
  \<^verbatim>\<open>
  lakera_response = holder.get("lakera_guardrail_response", {})
  breakdown = lakera_response.get("breakdown", [])
  for detector in breakdown: ...
  \<close>
\<close>

definition scan_breakdown :: "json \<Rightarrow> parse_state \<Rightarrow> exn + parse_state" where
  "scan_breakdown holder st =
     ebind (py_get holder ''lakera_guardrail_response'' (JObj [])) (\<lambda>lr.
     ebind (py_get lr ''breakdown'' (JArr [])) (\<lambda>breakdown.
     ebind (py_iter breakdown) (\<lambda>detectors.
     ebind (collect_detected detectors (ps_violations st)) (\<lambda>vs.
       Inr (st\<lparr>ps_violations := vs, ps_lakera_response := Some lr\<rparr>)))))"

text \<open>
  \<^verbatim>\<open>json.loads\<close> and \<^verbatim>\<open>ast.literal_eval\<close> belong to the Python library and are parameters
  of the model: each maps a string to the decoded value or to the exception it raises. The
  values are those of type \<open>json\<close>; the tuples, sets and byte strings that a Python literal
  can also denote are outside the model.
\<close>

record decoders =
  json_loads :: "string \<Rightarrow> exn + json"
  literal_eval :: "string \<Rightarrow> exn + json"

text \<open>
  Lines 94-103. \<open>JNull\<close> is the initial \<^verbatim>\<open>parsed_error = None\<close>, kept when both decoders fail:
  \<^verbatim>\<open>
  try: parsed_error = json.loads(error_msg)
  except (json.JSONDecodeError, TypeError):
      try: parsed_error = ast.literal_eval(error_msg)
      except (ValueError, SyntaxError): pass
  \<close>
\<close>

definition decode_message :: "decoders \<Rightarrow> string \<Rightarrow> exn + json" where
  "decode_message dec s =
     (case json_loads dec s of
        Inr v \<Rightarrow> Inr v
      | Inl e \<Rightarrow>
          if e = JSONDecodeError \<or> e = TypeError then
            (case literal_eval dec s of
               Inr v \<Rightarrow> Inr v
             | Inl e' \<Rightarrow>
                 if e' = ValueError \<or> e' = JSONDecodeError \<or> e' = SyntaxError then Inr JNull
                 else Inl e')
          else Inl e)"

text \<open>Lines 93-112: the nested-string form, on the value of \<^verbatim>\<open>error_msg\<close>.\<close>

definition parse_nested :: "decoders \<Rightarrow> json \<Rightarrow> exn + parse_state" where
  "parse_nested dec error_msg =
     (case error_msg of
        JStr s \<Rightarrow>
          ebind (decode_message dec s) (\<lambda>parsed_error.
            if truthy parsed_error \<and> is_dict parsed_error then
              ebind (py_in ''lakera_guardrail_response'' parsed_error) (\<lambda>present.
                if present then scan_breakdown parsed_error initial_parse
                else Inr initial_parse)
            else Inr initial_parse)
      | _ \<Rightarrow> Inr initial_parse)"

text \<open>
  Lines 115-122: the legacy form, tried when \<^verbatim>\<open>error_obj\<close> is a dict and no violation has
  been found so far. \<^verbatim>\<open>results[0]\<close> is evaluated once here; the source evaluates it three
  times with the same outcome.
\<close>

definition parse_legacy :: "json \<Rightarrow> parse_state \<Rightarrow> exn + parse_state" where
  "parse_legacy error_obj st =
     (if is_dict error_obj \<and> ps_violations st = [] then
        ebind (py_get error_obj ''lakera_ai_response'' (JObj [])) (\<lambda>lr.
          let st1 = st\<lparr>ps_lakera_response := Some lr\<rparr> in
          if truthy lr then
            ebind (py_get lr ''results'' (JArr [])) (\<lambda>results.
              if truthy results then
                ebind (py_index0 results) (\<lambda>first.
                ebind (py_get first ''flagged'' JNull) (\<lambda>flagged.
                  if truthy flagged then
                    ebind (py_get first ''categories'' (JObj [])) (\<lambda>cats.
                    ebind (py_get first ''category_scores'' (JObj [])) (\<lambda>scores.
                    ebind (py_items cats) (\<lambda>items.
                      Inr (st1\<lparr>ps_violations := map (\<lambda>kv. JStr (fst kv)) (filter (\<lambda>kv. truthy (snd kv)) items),
                                ps_category_scores := Some scores\<rparr>))))
                  else Inr st1))
              else Inr st1)
          else Inr st1)
      else Inr st)"

text \<open>
  Lines 89-122, the branch \<^verbatim>\<open>elif "error" in error_data\<close>:
  \<^verbatim>\<open>
  error_obj = error_data.get("error", {})
  error_msg = error_obj.get("message", "") if isinstance(error_obj, dict) else str(error_obj)
  \<close>
\<close>

definition parse_error_field :: "decoders \<Rightarrow> (json \<Rightarrow> string) \<Rightarrow> json \<Rightarrow> exn + parse_state" where
  "parse_error_field dec repr error_data =
     ebind (py_get error_data ''error'' (JObj [])) (\<lambda>error_obj.
     ebind (if is_dict error_obj then py_get error_obj ''message'' (JStr [])
            else Inr (JStr (py_str repr error_obj))) (\<lambda>error_msg.
     ebind (parse_nested dec error_msg) (\<lambda>st.
       parse_legacy error_obj st)))"

text \<open>Lines 75-122: the three forms in their precedence order.\<close>

definition parse_violations :: "decoders \<Rightarrow> (json \<Rightarrow> string) \<Rightarrow> json \<Rightarrow> exn + parse_state" where
  "parse_violations dec repr error_data =
     ebind (py_in ''lakera_guardrail_response'' error_data) (\<lambda>direct.
       if direct then scan_breakdown error_data initial_parse
       else
         ebind (py_in ''error'' error_data) (\<lambda>nested.
           if nested then parse_error_field dec repr error_data
           else Inr initial_parse))"

section \<open>\<^verbatim>\<open>GuardrailViolationError\<close>\<close>

text \<open>
  \<^verbatim>\<open>__init__\<close> (lines 208-216). \<open>violations\<close> holds whatever the parser collected; the
  other two mappings are typed as annotated (\<^verbatim>\<open>Dict[str, bool]\<close>, \<^verbatim>\<open>Dict[str, float]\<close>).
\<close>

definition gv_init ::
  "string \<Rightarrow> json list option \<Rightarrow> (string \<times> bool) list option \<Rightarrow> (string \<times> rat) list option
     \<Rightarrow> json option \<Rightarrow> guardrail_violation" where
  "gv_init message vs cats scores lr =
     (let vs0 = (case vs of Some v \<Rightarrow> v | None \<Rightarrow> []);
          cats0 = (case cats of Some c \<Rightarrow> c | None \<Rightarrow> []);
          scores0 = (case scores of Some c \<Rightarrow> c | None \<Rightarrow> [])
      in \<lparr>gv_message = message,
          violations = (if vs0 = [] \<and> cats0 \<noteq> [] then map (\<lambda>kv. JStr (fst kv)) (filter snd cats0)
                        else vs0),
          categories = cats0,
          category_scores = scores0,
          lakera_response = lr\<rparr>)"



















section \<open>\<^verbatim>\<open>ProxyClient\<close>\<close>

text \<open>
  An HTTP response: \<open>json_body\<close> is what \<^verbatim>\<open>response.json()\<close> returns, \<open>None\<close> when it raises
  \<^verbatim>\<open>JSONDecodeError\<close>; \<open>body_text\<close> is \<^verbatim>\<open>response.text\<close>.
\<close>

record response =
  status_code :: int
  body_text :: string
  json_body :: "json option"

record request =
  url :: string
  json_payload :: "(string \<times> json) list"
  headers :: "(string \<times> string) list"
  timeout_s :: nat

record proxy_client =
  base_url :: string
  api_key :: string
  chat_endpoint :: string

definition rstrip :: "char \<Rightarrow> string \<Rightarrow> string" where
  "rstrip c s = rev (dropWhile (\<lambda>x. x = c) (rev s))"

definition client_init :: "string \<Rightarrow> string \<Rightarrow> proxy_client" where
  "client_init address key =
     \<lparr>base_url = rstrip CHR ''/'' address, api_key = key,
      chat_endpoint = rstrip CHR ''/'' address @ ''/v1/chat/completions''\<rparr>"

text \<open>\<^verbatim>\<open>d[k] = v\<close>: an existing key keeps its place, a new one goes last.\<close>

fun dict_set :: "string \<Rightarrow> 'v \<Rightarrow> (string \<times> 'v) list \<Rightarrow> (string \<times> 'v) list" where
  "dict_set k v [] = [(k, v)]"
| "dict_set k v (kv # kvs) = (if fst kv = k then (k, v) # kvs else kv # dict_set k v kvs)"

definition eraise :: "exn + 'a \<Rightarrow> ('a \<Rightarrow> exn) \<Rightarrow> exn" where
  "eraise m f = (case m of Inl e \<Rightarrow> e | Inr x \<Rightarrow> f x)"

definition api_error_prefix :: "int \<Rightarrow> string" where
  "api_error_prefix status = ''API error ('' @ str_int status @ ''): ''"

text \<open>
  Lines 133-137:
  \<^verbatim>\<open>
  error_msg = error_data.get("error", {})
  if isinstance(error_msg, dict):
      error_msg = error_msg.get("message", str(error_msg))
  elif not isinstance(error_msg, str):
      error_msg = str(error_data.get("error", "Unknown error"))
  \<close>
\<close>

definition generic_error_msg :: "(json \<Rightarrow> string) \<Rightarrow> json \<Rightarrow> exn + json" where
  "generic_error_msg repr error_data =
     ebind (py_get error_data ''error'' (JObj [])) (\<lambda>error_msg.
       case error_msg of
         JObj kvs \<Rightarrow> py_get error_msg ''message'' (JStr (py_str repr error_msg))
       | JStr s \<Rightarrow> Inr error_msg
       | _ \<Rightarrow>
           ebind (py_get error_data ''error'' (JStr ''Unknown error'')) (\<lambda>e.
             Inr (JStr (py_str repr e))))"

text \<open>The body of the \<^verbatim>\<open>try\<close> at lines 72-139; every path through it raises.\<close>

definition try_block :: "decoders \<Rightarrow> (json \<Rightarrow> string) \<Rightarrow> response \<Rightarrow> exn" where
  "try_block dec repr resp =
     eraise (case json_body resp of None \<Rightarrow> Inl JSONDecodeError | Some v \<Rightarrow> Inr v) (\<lambda>error_data.
     eraise (parse_violations dec repr error_data) (\<lambda>st.
       if ps_violations st \<noteq> [] then
         GuardrailViolationError
           (gv_init ''LiteLLM has flagged this message due to policy violations''
              (Some (ps_violations st)) None None (ps_lakera_response st))
       else
         eraise (generic_error_msg repr error_data) (\<lambda>error_msg.
           APIError (api_error_prefix (status_code resp) @ py_str repr error_msg))))"

text \<open>
  Lines 70-143, what a response with a status other than 200 raises:
  \<^verbatim>\<open>
  except GuardrailViolationError: raise
  except (json.JSONDecodeError, KeyError, AttributeError) as e:
      raise APIError(f"API error ({response.status_code}): {response.text}")
  \<close>
\<close>

definition error_response :: "decoders \<Rightarrow> (json \<Rightarrow> string) \<Rightarrow> response \<Rightarrow> exn" where
  "error_response dec repr resp =
     (let e = try_block dec repr resp in
      if e = JSONDecodeError \<or> e = KeyError \<or> e = AttributeError then
        APIError (api_error_prefix (status_code resp) @ body_text resp)
      else e)"

text \<open>\<^verbatim>\<open>chat_completion\<close> (lines 47-145); \<open>post\<close> is \<^verbatim>\<open>requests.post\<close>.\<close>

definition chat_completion ::
  "decoders \<Rightarrow> (json \<Rightarrow> string) \<Rightarrow> (request \<Rightarrow> exn + response) \<Rightarrow> proxy_client \<Rightarrow> string
     \<Rightarrow> json list \<Rightarrow> string list option \<Rightarrow> bool \<Rightarrow> (string \<times> json) list \<Rightarrow> exn + json" where
  "chat_completion dec repr post client model_name msgs guards stream kwargs =
     (let payload0 = foldl (\<lambda>d kv. dict_set (fst kv) (snd kv) d)
                       [(''model'', JStr model_name), (''messages'', JArr msgs),
                        (''stream'', JBool stream)] kwargs;
          payload = (case guards of
                       None \<Rightarrow> payload0
                     | Some gs \<Rightarrow> if gs = [] then payload0
                                 else dict_set ''guardrails'' (JArr (map JStr gs)) payload0);
          hdrs = [(''Content-Type'', ''application/json''),
                  (''Authorization'', ''Bearer '' @ api_key client)]
      in case post \<lparr>url = chat_endpoint client, json_payload = payload, headers = hdrs,
                     timeout_s = 60\<rparr> of
           Inl e \<Rightarrow> Inl e
         | Inr resp \<Rightarrow>
             if status_code resp \<noteq> 200 then Inl (error_response dec repr resp)
             else (case json_body resp of None \<Rightarrow> Inl JSONDecodeError | Some v \<Rightarrow> Inr v))"

fun is_request_exception :: "exn \<Rightarrow> bool" where
  "is_request_exception RequestException = True"
| "is_request_exception ConnectionError = True"
| "is_request_exception Timeout = True"
| "is_request_exception e = False"

text \<open>
  The common body of \<^verbatim>\<open>ProxyClient.health_check\<close> (lines 153-157) and
  \<^verbatim>\<open>ProxyManager.is_running\<close> (lines 44-48), on the outcome of the GET:
  \<^verbatim>\<open>
  try: response = requests.get(..., timeout=2); return response.status_code == 200
  except requests.exceptions.RequestException: return False
  \<close>
\<close>

definition healthy_reply :: "exn + response \<Rightarrow> exn + bool" where
  "healthy_reply outcome =
     (case outcome of
        Inr resp \<Rightarrow> Inr (status_code resp = 200)
      | Inl e \<Rightarrow> if is_request_exception e then Inr False else Inl e)"

text \<open>\<open>get\<close> is \<^verbatim>\<open>requests.get\<close>, applied to the URL and the timeout in seconds.\<close>

definition health_check :: "(string \<Rightarrow> nat \<Rightarrow> exn + response) \<Rightarrow> proxy_client \<Rightarrow> exn + bool" where
  "health_check get client = healthy_reply (get (base_url client @ ''/health'') 2)"

section \<open>\<^verbatim>\<open>ChatSession\<close>\<close>

record chat_session =
  cs_model :: string
  cs_guardrails :: "string list"
  cs_messages :: "(string \<times> json) list list"

definition session_init :: "string \<Rightarrow> string list option \<Rightarrow> chat_session" where
  "session_init model_name guards =
     \<lparr>cs_model = model_name,
      cs_guardrails = (case guards of None \<Rightarrow> [''lakera-guard'']
                       | Some gs \<Rightarrow> if gs = [] then [''lakera-guard''] else gs),
      cs_messages = []\<rparr>"

definition add_message :: "chat_session \<Rightarrow> string \<Rightarrow> json \<Rightarrow> chat_session" where
  "add_message s role content =
     s\<lparr>cs_messages := cs_messages s @ [[(''role'', JStr role), (''content'', content)]]\<rparr>"

definition has_role :: "string \<Rightarrow> (string \<times> json) list \<Rightarrow> bool" where
  "has_role role m = (map_of m ''role'' = Some (JStr role))"

text \<open>The body of the \<^verbatim>\<open>try\<close> in \<^verbatim>\<open>chat\<close> (lines 65-83).\<close>

definition chat_try ::
  "decoders \<Rightarrow> (json \<Rightarrow> string) \<Rightarrow> (request \<Rightarrow> exn + response) \<Rightarrow> proxy_client \<Rightarrow> chat_session
     \<Rightarrow> exn + (json \<times> chat_session)" where
  "chat_try dec repr post client s =
     ebind (chat_completion dec repr post client (cs_model s) (map JObj (cs_messages s))
              (Some (cs_guardrails s)) False []) (\<lambda>resp.
     ebind (py_get resp ''choices'' (JArr [])) (\<lambda>choices.
       if \<not> truthy choices then Inl (APIError ''No response choices in API response'')
       else
         ebind (py_index0 choices) (\<lambda>choice.
         ebind (py_get choice ''message'' (JObj [])) (\<lambda>message.
         ebind (py_get message ''content'' (JStr [])) (\<lambda>assistant_message.
           if \<not> truthy assistant_message then Inl (APIError ''Empty response from assistant'')
           else Inr (assistant_message, add_message s ''assistant'' assistant_message))))))"

text \<open>
  \<^verbatim>\<open>chat\<close> (lines 57-89): the outcome and the session afterwards.
  \<^verbatim>\<open>
  except GuardrailViolationError as e:
      if self.messages and self.messages[-1].get("role") == "user":
          self.messages.pop()
      raise
  \<close>
\<close>

definition chat ::
  "decoders \<Rightarrow> (json \<Rightarrow> string) \<Rightarrow> (request \<Rightarrow> exn + response) \<Rightarrow> proxy_client \<Rightarrow> chat_session
     \<Rightarrow> string \<Rightarrow> string option \<Rightarrow> (exn + json) \<times> chat_session" where
  "chat dec repr post client s user_message system_message =
     (let s1 = (case system_message of
                  None \<Rightarrow> s
                | Some sm \<Rightarrow> if sm \<noteq> [] \<and> \<not> list_ex (has_role ''system'') (cs_messages s)
                             then add_message s ''system'' (JStr sm) else s);
          s2 = add_message s1 ''user'' (JStr user_message)
      in case chat_try dec repr post client s2 of
           Inr (assistant_message, s3) \<Rightarrow> (Inr assistant_message, s3)
         | Inl (GuardrailViolationError g) \<Rightarrow>
             (Inl (GuardrailViolationError g),
              if cs_messages s2 \<noteq> [] \<and> has_role ''user'' (last (cs_messages s2))
              then s2\<lparr>cs_messages := butlast (cs_messages s2)\<rparr> else s2)
         | Inl e \<Rightarrow> (Inl e, s2))"

section \<open>\<^verbatim>\<open>ProxyManager\<close>\<close>

text \<open>
  The operating system as the manager sees it. \<open>os_env\<close> holds what the environment answers:
  the reply to the \<open>n\<close>-th health request, which paths exist, what \<^verbatim>\<open>subprocess.Popen\<close> yields
  for a command, and what the \<open>n\<close>-th \<^verbatim>\<open>poll()\<close> of a process returns. \<open>os_world\<close> counts the
  interactions, keeps a clock in milliseconds that only \<^verbatim>\<open>time.sleep\<close> advances, and logs the
  commands spawned. Console output and the reading of the process output do not influence
  any result and are left out.
\<close>

record os_env =
  health_get :: "nat \<Rightarrow> string \<Rightarrow> nat \<Rightarrow> exn + response"
  path_exists :: "string \<Rightarrow> bool"
  sys_executable :: string
  popen :: "string list \<Rightarrow> exn + nat"
  poll :: "nat \<Rightarrow> nat \<Rightarrow> int option"

record os_world =
  requests_made :: nat
  polls_made :: nat
  clock_ms :: nat
  spawned :: "string list list"

record proxy_manager =
  config_path :: string
  litellm_path :: "string option"
  process :: "nat option"

definition PROXY_URL :: string where
  "PROXY_URL = ''http://localhost:4000''"

definition PROXY_HEALTH_ENDPOINT :: string where
  "PROXY_HEALTH_ENDPOINT = PROXY_URL @ ''/health''"

definition is_running :: "os_env \<Rightarrow> os_world \<Rightarrow> (exn + bool) \<times> os_world" where
  "is_running env w =
     (healthy_reply (health_get env (requests_made w) PROXY_HEALTH_ENDPOINT 2),
      w\<lparr>requests_made := Suc (requests_made w)\<rparr>)"

text \<open>
  The loop of lines 98-123. \<open>Inr True\<close>: the \<^verbatim>\<open>return True\<close> of line 122; \<open>Inr False\<close>: the
  loop was left by \<^verbatim>\<open>break\<close> or by its condition.
\<close>

function wait_until_ready ::
  "os_env \<Rightarrow> nat \<Rightarrow> nat \<Rightarrow> int \<Rightarrow> os_world \<Rightarrow> (exn + bool) \<times> os_world" where
  "wait_until_ready env handle start_time timeout w =
     (if int (clock_ms w) - int start_time < timeout * 1000 then
        (case poll env handle (polls_made w) of
           Some returncode \<Rightarrow> (Inr False, w\<lparr>polls_made := Suc (polls_made w)\<rparr>)
         | None \<Rightarrow>
             (case healthy_reply (health_get env (requests_made w) PROXY_HEALTH_ENDPOINT 2) of
                Inl e \<Rightarrow>
                  (Inl e, w\<lparr>polls_made := Suc (polls_made w), requests_made := Suc (requests_made w)\<rparr>)
              | Inr running \<Rightarrow>
                  if running then
                    (Inr True,
                     w\<lparr>polls_made := Suc (polls_made w), requests_made := Suc (requests_made w)\<rparr>)
                  else
                    wait_until_ready env handle start_time timeout
                      (w\<lparr>polls_made := Suc (polls_made w), requests_made := Suc (requests_made w),
                         clock_ms := clock_ms w + 500\<rparr>)))
      else (Inr False, w))"
  by pat_completeness auto
termination
  by (relation "measure (\<lambda>(env, handle, start_time, timeout, w).
         nat (timeout * 1000 - (int (clock_ms w) - int start_time)))") auto

text \<open>
  \<^verbatim>\<open>start\<close> (lines 60-143). \<^verbatim>\<open>stop\<close> (lines 145-253) sweeps the processes of the machine;
  its effect on the manager and the world is the parameter \<open>stop\<close>.
\<close>

definition start ::
  "os_env \<Rightarrow> (proxy_manager \<times> os_world \<Rightarrow> proxy_manager \<times> os_world) \<Rightarrow> proxy_manager \<Rightarrow> os_world
     \<Rightarrow> bool \<Rightarrow> int \<Rightarrow> (exn + bool) \<times> proxy_manager \<times> os_world" where
  "start env stop m w wait_for_ready timeout =
     (case is_running env w of
        (Inl e, w1) \<Rightarrow> (Inl e, m, w1)
      | (Inr running, w1) \<Rightarrow>
          if running then (Inr True, m, w1)
          else if \<not> path_exists env (config_path m) then (Inr False, m, w1)
          else
            (let cmd = (if (case litellm_path m of Some p \<Rightarrow> path_exists env p | None \<Rightarrow> False)
                        then [sys_executable env, ''-m'', ''litellm.proxy.proxy_cli'', ''--config'',
                              config_path m]
                        else [''litellm'', ''--config'', config_path m])
             in case popen env cmd of
                  Inl e \<Rightarrow> (Inl e, m, w1)
                | Inr handle \<Rightarrow>
                    (let m1 = m\<lparr>process := Some handle\<rparr>;
                         w2 = w1\<lparr>spawned := spawned w1 @ [cmd]\<rparr>
                     in if wait_for_ready then
                          (case wait_until_ready env handle (clock_ms w2) timeout w2 of
                             (Inl e, w3) \<Rightarrow> (Inl e, m1, w3)
                           | (Inr ready, w3) \<Rightarrow>
                               if ready then (Inr True, m1, w3)
                               else
                                 (let mw = stop (m1, w3\<lparr>polls_made := Suc (polls_made w3)\<rparr>)
                                  in (Inr False, fst mw, snd mw)))
                        else (Inr True, m1, w2))))"

text \<open>\<^verbatim>\<open>ensure_running\<close> (lines 261-263).\<close>

definition ensure_running ::
  "os_env \<Rightarrow> (proxy_manager \<times> os_world \<Rightarrow> proxy_manager \<times> os_world) \<Rightarrow> proxy_manager \<Rightarrow> os_world
     \<Rightarrow> (exn + bool) \<times> proxy_manager \<times> os_world" where
  "ensure_running env stop m w =
     (case is_running env w of
        (Inl e, w1) \<Rightarrow> (Inl e, m, w1)
      | (Inr running, w1) \<Rightarrow>
          if \<not> running then start env stop m w1 True 30 else (Inr True, m, w1))"

section \<open>The notions the specification uses\<close>

text \<open>The value under a key of a mapping; nothing when the value is no mapping.\<close>

fun lookup :: "json \<Rightarrow> string \<Rightarrow> json option" where
  "lookup (JObj kvs) k = map_of kvs k"
| "lookup v k = None"

text \<open>
  A breakdown entry of the direct form carries a \<^verbatim>\<open>detector_type\<close> and a boolean
  \<^verbatim>\<open>detected\<close>; the violations of a breakdown are the detector types of the entries whose
  \<^verbatim>\<open>detected\<close> is true, in their order.
\<close>

definition direct_entry :: "json \<Rightarrow> bool" where
  "direct_entry e =
     ((lookup e ''detected'' = Some (JBool True) \<or> lookup e ''detected'' = Some (JBool False))
      \<and> lookup e ''detector_type'' \<noteq> None)"

definition entry_detected :: "json \<Rightarrow> bool" where
  "entry_detected e = (lookup e ''detected'' = Some (JBool True))"

definition entry_type :: "json \<Rightarrow> json" where
  "entry_type e = (case lookup e ''detector_type'' of Some t \<Rightarrow> t | None \<Rightarrow> JStr ''unknown'')"

definition spec_direct_violations :: "json list \<Rightarrow> json list" where
  "spec_direct_violations es = map entry_type (filter entry_detected es)"

text \<open>
  A mapping is in the direct form with breakdown \<open>es\<close> when its guardrail-response key holds
  a mapping whose \<^verbatim>\<open>breakdown\<close> is the sequence \<open>es\<close> of such entries.
\<close>

definition direct_form :: "json \<Rightarrow> json list \<Rightarrow> bool" where
  "direct_form body es =
     (case lookup body ''lakera_guardrail_response'' of
        Some g \<Rightarrow> lookup g ''breakdown'' = Some (JArr es) \<and> list_all direct_entry es
      | None \<Rightarrow> False)"


text \<open>
  A history has an unanswered user turn when some user message is not directly followed by
  an assistant message.
\<close>

fun unanswered :: "(string \<times> json) list list \<Rightarrow> bool" where
  "unanswered [] = False"
| "unanswered [m] = has_role ''user'' m"
| "unanswered (m # m' # ms) =
     (if has_role ''user'' m \<and> \<not> has_role ''assistant'' m' then True else unanswered (m' # ms))"

text \<open>The system message that a call of \<^verbatim>\<open>chat\<close> adds to the history, if any.\<close>

definition new_system_turn :: "chat_session \<Rightarrow> string option \<Rightarrow> (string \<times> json) list list" where
  "new_system_turn s system_message =
     (case system_message of
        None \<Rightarrow> []
      | Some sm \<Rightarrow>
          if sm \<noteq> [] \<and> \<not> list_ex (has_role ''system'') (cs_messages s)
          then [[(''role'', JStr ''system''), (''content'', JStr sm)]] else [])"

fun is_guardrail_violation :: "exn + 'a \<Rightarrow> bool" where
  "is_guardrail_violation (Inl (GuardrailViolationError g)) = True"
| "is_guardrail_violation r = False"




section \<open>Concrete inputs\<close>

text \<open>Decoders given by finite tables: a string outside a table is a decoding failure.\<close>

definition table_decoders :: "(string \<times> json) list \<Rightarrow> (string \<times> json) list \<Rightarrow> decoders" where
  "table_decoders js ls =
     \<lparr>json_loads = (\<lambda>s. case map_of js s of Some v \<Rightarrow> Inr v | None \<Rightarrow> Inl JSONDecodeError),
      literal_eval = (\<lambda>s. case map_of ls s of Some v \<Rightarrow> Inr v | None \<Rightarrow> Inl SyntaxError)\<rparr>"

text \<open>
  Python prints the empty dict as \<^verbatim>\<open>{}\<close> and \<^verbatim>\<open>None\<close> as \<^verbatim>\<open>None\<close>; the concrete inputs below
  lead to no other object being printed.
\<close>

definition sample_repr :: "json \<Rightarrow> string" where
  "sample_repr v = (if v = JObj [] then ''{}'' else if v = JNull then ''None'' else ''<object>'')"

text \<open>
  The body \<^verbatim>\<open>{"lakera_guardrail_response": {"breakdown": [{"detector_type": "pii/email",
  "detected": true}, {"detector_type": "jailbreak", "detected": false}]}}\<close>.
\<close>

definition scenario_breakdown :: "json list" where
  "scenario_breakdown =
     [JObj [(''detector_type'', JStr ''pii/email''), (''detected'', JBool True)],
      JObj [(''detector_type'', JStr ''jailbreak''), (''detected'', JBool False)]]"

definition scenario_direct_body :: json where
  "scenario_direct_body =
     JObj [(''lakera_guardrail_response'', JObj [(''breakdown'', JArr scenario_breakdown)])]"

text \<open>The body \<^verbatim>\<open>{"lakera_guardrail_response": {"breakdown": null}}\<close>.\<close>

definition null_breakdown_body :: json where
  "null_breakdown_body = JObj [(''lakera_guardrail_response'', JObj [(''breakdown'', JNull)])]"








text \<open>
  A body whose \<^verbatim>\<open>error.message\<close> serializes a direct-form payload with no detected entry,
  \<^verbatim>\<open>{"lakera_guardrail_response": {"breakdown": [{"detector_type": "pii/email", "detected":
  false}]}}\<close>, beside a legacy moderation response that flags \<^verbatim>\<open>hate\<close>.
\<close>

definition quiet_breakdown :: "json list" where
  "quiet_breakdown = [JObj [(''detector_type'', JStr ''pii/email''), (''detected'', JBool False)]]"

definition quiet_payload :: json where
  "quiet_payload =
     JObj [(''lakera_guardrail_response'', JObj [(''breakdown'', JArr quiet_breakdown)])]"



definition hate_response :: json where
  "hate_response =
     JObj [(''results'',
            JArr [JObj [(''flagged'', JBool True),
                        (''categories'', JObj [(''hate'', JBool True), (''violence'', JBool False)]),
                        (''category_scores'',
                           JObj [(''hate'', JFloat (9 / 10)), (''violence'', JFloat (1 / 10))])]])]"


text \<open>
  A legacy body: \<^verbatim>\<open>{"error": {"message": "Content blocked", "lakera_ai_response": {"results":
  [{"flagged": true, "categories": {"hate": true, "violence": false}, "category_scores":
  {"hate": 0.9, "violence": 0.1}}]}}}\<close>.
\<close>

definition legacy_body :: json where
  "legacy_body =
     JObj [(''error'', JObj [(''message'', JStr ''Content blocked''),
                             (''lakera_ai_response'', hate_response)])]"


section \<open>Health checks, sessions and the supervisor: notions and concrete inputs\<close>

text \<open>
  The outcome of a GET is of the network when it is a response or one of the exceptions of
  \<^verbatim>\<open>requests\<close>; the server answered 200 when the outcome is a response with that status.
\<close>

definition network_outcome :: "exn + response \<Rightarrow> bool" where
  "network_outcome outcome = (case outcome of Inr resp \<Rightarrow> True | Inl e \<Rightarrow> is_request_exception e)"

definition answered_200 :: "exn + response \<Rightarrow> bool" where
  "answered_200 outcome = (case outcome of Inr resp \<Rightarrow> status_code resp = 200 | Inl e \<Rightarrow> False)"





text \<open>
  A gateway that answers the request whose only message is the user turn \<^verbatim>\<open>hello\<close> with
  status 500 and body \<^verbatim>\<open>{"error": "internal failure"}\<close>, and any other request with status
  400 and the guardrail rejection \<open>scenario_direct_body\<close>.
\<close>

definition flaky_post :: "request \<Rightarrow> exn + response" where
  "flaky_post req =
     (if map_of (json_payload req) ''messages'' =
           Some (JArr [JObj [(''role'', JStr ''user''), (''content'', JStr ''hello'')]])
      then Inr \<lparr>status_code = 500, body_text = [],
                json_body = Some (JObj [(''error'', JStr ''internal failure'')])\<rparr>
      else Inr \<lparr>status_code = 400, body_text = [], json_body = Some scenario_direct_body\<rparr>)"

definition local_client :: proxy_client where
  "local_client = client_init ''http://localhost:4000'' ''dummy-key''"

definition fresh_session :: chat_session where
  "fresh_session = session_init ''gpt-3.5-turbo'' None"

definition session_after_failure :: chat_session where
  "session_after_failure =
     snd (chat (table_decoders [] []) sample_repr flaky_post local_client fresh_session
            ''hello'' None)"

text \<open>An environment whose health endpoint answers 200 and in which nothing else exists.\<close>

definition ok_response :: response where
  "ok_response = \<lparr>status_code = 200, body_text = [], json_body = None\<rparr>"

definition healthy_env :: os_env where
  "healthy_env =
     \<lparr>health_get = (\<lambda>n address t. Inr ok_response), path_exists = (\<lambda>p. False),
      sys_executable = ''python3'', popen = (\<lambda>cmd. Inl FileNotFoundError),
      poll = (\<lambda>handle n. None)\<rparr>"

definition idle_world :: os_world where
  "idle_world = \<lparr>requests_made = 0, polls_made = 0, clock_ms = 0, spawned = []\<rparr>"

definition idle_manager :: proxy_manager where
  "idle_manager = \<lparr>config_path = ''/srv/config.yaml'', litellm_path = None, process = None\<rparr>"

text \<open>A GET that fails to connect, one that times out, and one that is answered 503.\<close>

definition refused_get :: "string \<Rightarrow> nat \<Rightarrow> exn + response" where
  "refused_get address t = Inl ConnectionError"

definition slow_get :: "string \<Rightarrow> nat \<Rightarrow> exn + response" where
  "slow_get address t = Inl Timeout"

definition ok_get :: "string \<Rightarrow> nat \<Rightarrow> exn + response" where
  "ok_get address t =
     (if address = ''http://localhost:4000/health'' \<and> t = 2 then Inr ok_response
      else Inl ConnectionError)"

section \<open>Properties of the violation parser\<close>

lemma py_get_present: "lookup v k = Some x \<Longrightarrow> py_get v k d = Inr x"
  by (cases v) auto

lemma py_in_present: "lookup v k = Some x \<Longrightarrow> py_in k v = Inr True"
  by (cases v) (force dest!: map_of_SomeD)+

lemma collect_detected_direct:
  "list_all direct_entry es \<Longrightarrow> collect_detected es vs = Inr (vs @ spec_direct_violations es)"
proof (induction es arbitrary: vs)
  case Nil
  show ?case by (simp add: spec_direct_violations_def)
next
  case (Cons e es)
  from Cons.prems have e: "direct_entry e" and rest: "list_all direct_entry es" by simp_all
  from e obtain t where t: "lookup e ''detector_type'' = Some t"
    by (auto simp: direct_entry_def)
  from e consider "lookup e ''detected'' = Some (JBool True)"
    | "lookup e ''detected'' = Some (JBool False)"
    by (auto simp: direct_entry_def)
  then show ?case
  proof cases
    case 1
    then show ?thesis
      using t Cons.IH [OF rest]
      by (simp add: py_get_present spec_direct_violations_def entry_detected_def entry_type_def)
  next
    case 2
    then show ?thesis
      using t Cons.IH [OF rest]
      by (simp add: py_get_present spec_direct_violations_def entry_detected_def entry_type_def)
  qed
qed

lemma scan_breakdown_direct:
  assumes "direct_form body es"
  shows "scan_breakdown body st =
           Inr (st\<lparr>ps_violations := ps_violations st @ spec_direct_violations es,
                   ps_lakera_response := lookup body ''lakera_guardrail_response''\<rparr>)"
proof -
  from assms obtain g where g: "lookup body ''lakera_guardrail_response'' = Some g"
    and b: "lookup g ''breakdown'' = Some (JArr es)" and es: "list_all direct_entry es"
    by (auto simp: direct_form_def split: option.splits)
  show ?thesis
    by (simp add: scan_breakdown_def ebind_def py_get_present [OF g] py_get_present [OF b]
        collect_detected_direct [OF es] g)
qed

lemma parse_violations_direct:
  assumes "direct_form body es"
  shows "parse_violations dec repr body =
           Inr \<lparr>ps_violations = spec_direct_violations es,
                ps_lakera_response = lookup body ''lakera_guardrail_response'',
                ps_category_scores = None\<rparr>"
proof -
  from assms obtain g where g: "lookup body ''lakera_guardrail_response'' = Some g"
    by (auto simp: direct_form_def split: option.splits)
  show ?thesis
    by (simp add: parse_violations_def ebind_def py_in_present [OF g]
        scan_breakdown_direct [OF assms] initial_parse_def)
qed

lemma violations_gv_init: "vs \<noteq> [] \<Longrightarrow> violations (gv_init msg (Some vs) None None lr) = vs"
  by (simp add: gv_init_def)

lemma scenario_direct_form: "direct_form scenario_direct_body scenario_breakdown"
  by (simp add: direct_form_def scenario_direct_body_def scenario_breakdown_def direct_entry_def)

lemma scenario_violations: "spec_direct_violations scenario_breakdown = [JStr ''pii/email'']"
  by (simp add: spec_direct_violations_def scenario_breakdown_def entry_detected_def
      entry_type_def)

text \<open>
  C1. For an error body in the direct form, the parser extracts exactly the detector types
  of the breakdown entries whose \<^verbatim>\<open>detected\<close> is true, in the order of the breakdown; when
  that list is not empty it is the violation list of the guardrail-violation error raised.
\<close>

theorem direct_form_violations:
  assumes "direct_form body es" and "json_body resp = Some body"
  shows "parse_violations dec repr body =
            Inr \<lparr>ps_violations = spec_direct_violations es,
                 ps_lakera_response = lookup body ''lakera_guardrail_response'',
                 ps_category_scores = None\<rparr> \<and>
         (spec_direct_violations es \<noteq> [] \<longrightarrow>
            (\<exists>g. error_response dec repr resp = GuardrailViolationError g \<and>
                 violations g = spec_direct_violations es))"
  using assms
  by (simp add: parse_violations_direct error_response_def try_block_def eraise_def
      violations_gv_init)

theorem direct_form_violations_witness:
  "direct_form scenario_direct_body scenario_breakdown \<and>
   json_body \<lparr>status_code = 400, body_text = [], json_body = Some scenario_direct_body\<rparr> =
     Some scenario_direct_body \<and>
   parse_violations (table_decoders [] []) sample_repr scenario_direct_body =
     Inr \<lparr>ps_violations = [JStr ''pii/email''],
          ps_lakera_response = lookup scenario_direct_body ''lakera_guardrail_response'',
          ps_category_scores = None\<rparr> \<and>
   (\<exists>g. error_response (table_decoders [] []) sample_repr
          \<lparr>status_code = 400, body_text = [], json_body = Some scenario_direct_body\<rparr> =
        GuardrailViolationError g \<and> violations g = [JStr ''pii/email''])"
proof -
  have b: "json_body \<lparr>status_code = 400, body_text = [], json_body = Some scenario_direct_body\<rparr> =
     Some scenario_direct_body" by simp
  show ?thesis
    using direct_form_violations [OF scenario_direct_form b, of "table_decoders [] []" sample_repr]
      scenario_direct_form scenario_violations
    by simp
qed






text \<open>
  C2. The parsing pipeline does not always end in a guardrail-violation error or an
  \<^verbatim>\<open>APIError\<close>: on a body whose \<^verbatim>\<open>breakdown\<close> is \<^verbatim>\<open>null\<close> the loop over the breakdown raises
  \<^verbatim>\<open>TypeError\<close>, which neither \<^verbatim>\<open>except\<close> clause catches.
\<close>

theorem null_breakdown_raises_type_error:
  "error_response dec repr \<lparr>status_code = 400, body_text = t, json_body = Some null_breakdown_body\<rparr>
     = TypeError"
  by (simp add: error_response_def try_block_def eraise_def parse_violations_def ebind_def
      scan_breakdown_def null_breakdown_body_def)


lemma quiet_direct_form: "direct_form quiet_payload quiet_breakdown"
  by (simp add: direct_form_def quiet_payload_def quiet_breakdown_def direct_entry_def)




















text \<open>
  C6. On a legacy body the parser collects the flagged categories and reads
  \<^verbatim>\<open>category_scores\<close> into a local, but the error raised carries no score: the local is
  not passed to the constructor.
\<close>

theorem legacy_scores_dropped:
  "parse_violations (table_decoders [] []) sample_repr legacy_body =
     Inr \<lparr>ps_violations = [JStr ''hate''], ps_lakera_response = Some hate_response,
          ps_category_scores =
            Some (JObj [(''hate'', JFloat (9 / 10)), (''violence'', JFloat (1 / 10))])\<rparr> \<and>
   error_response (table_decoders [] []) sample_repr
     \<lparr>status_code = 400, body_text = [], json_body = Some legacy_body\<rparr> =
     GuardrailViolationError
       \<lparr>gv_message = ''LiteLLM has flagged this message due to policy violations'',
        violations = [JStr ''hate''], categories = [], category_scores = [],
        lakera_response = Some hate_response\<rparr>"
  by code_simp

section \<open>Rendering of a guardrail violation\<close>












section \<open>The chat session, the supervisor and the health checks\<close>

lemma unanswered_append_other:
  "\<not> unanswered ms \<Longrightarrow> \<not> has_role ''user'' m \<Longrightarrow> \<not> unanswered (ms @ [m])"
  by (induction ms rule: unanswered.induct) (auto split: if_splits)

lemma system_turn_not_user:
  "\<not> unanswered ms \<Longrightarrow> \<not> unanswered (ms @ new_system_turn s system_message)"
proof (cases "new_system_turn s system_message = []")
  case True
  assume "\<not> unanswered ms"
  with True show ?thesis by simp
next
  case False
  assume ms: "\<not> unanswered ms"
  from False obtain sm where
    t: "new_system_turn s system_message = [[(''role'', JStr ''system''), (''content'', JStr sm)]]"
    by (auto simp: new_system_turn_def split: option.splits if_splits)
  have "\<not> has_role ''user'' [(''role'', JStr ''system''), (''content'', JStr sm)]"
    by (simp add: has_role_def)
  with ms show ?thesis unfolding t by (rule unanswered_append_other)
qed

lemma chat_guardrail_history:
  assumes "fst (chat dec repr post client s user_message system_message) =
             Inl (GuardrailViolationError g)"
  shows "cs_messages (snd (chat dec repr post client s user_message system_message)) =
           cs_messages s @ new_system_turn s system_message"
proof -
  define s1 where "s1 = (case system_message of
                  None \<Rightarrow> s
                | Some sm \<Rightarrow> if sm \<noteq> [] \<and> \<not> list_ex (has_role ''system'') (cs_messages s)
                             then add_message s ''system'' (JStr sm) else s)"
  define s2 where "s2 = add_message s1 ''user'' (JStr user_message)"
  have m1: "cs_messages s1 = cs_messages s @ new_system_turn s system_message"
    by (simp add: s1_def new_system_turn_def add_message_def split: option.splits)
  have m2: "cs_messages s2 = cs_messages s1 @ [[(''role'', JStr ''user''), (''content'', JStr user_message)]]"
    by (simp add: s2_def add_message_def)
  have c: "chat dec repr post client s user_message system_message =
     (case chat_try dec repr post client s2 of
           Inr (assistant_message, s3) \<Rightarrow> (Inr assistant_message, s3)
         | Inl (GuardrailViolationError g) \<Rightarrow>
             (Inl (GuardrailViolationError g),
              if cs_messages s2 \<noteq> [] \<and> has_role ''user'' (last (cs_messages s2))
              then s2\<lparr>cs_messages := butlast (cs_messages s2)\<rparr> else s2)
         | Inl e \<Rightarrow> (Inl e, s2))"
    by (simp only: chat_def s1_def s2_def Let_def)
  from assms obtain g' where t: "chat_try dec repr post client s2 = Inl (GuardrailViolationError g')"
    unfolding c by (auto split: sum.splits exn.splits prod.splits)
  show ?thesis
    unfolding c t by (simp add: m2 has_role_def, simp add: m1)
qed

text \<open>
  C5, amended. When \<^verbatim>\<open>chat\<close> raises a guardrail-violation error, the user turn just
  submitted is removed: the history is the one before the call, followed by the system
  message if the call added one. It then contains no unanswered user turn, provided it
  contained none before the call.
\<close>

theorem guardrail_violation_discards_user_turn:
  assumes "fst (chat dec repr post client s user_message system_message) =
             Inl (GuardrailViolationError g)"
  shows "cs_messages (snd (chat dec repr post client s user_message system_message)) =
           cs_messages s @ new_system_turn s system_message \<and>
         (\<not> unanswered (cs_messages s) \<longrightarrow>
          \<not> unanswered (cs_messages (snd (chat dec repr post client s user_message system_message))))"
  using chat_guardrail_history [OF assms] by (simp add: system_turn_not_user)

text \<open>
  C5, as stated, fails: a call that ends in a generic \<^verbatim>\<open>APIError\<close> leaves its user turn in
  the history, so after a later call that raises a guardrail-violation error the history
  still holds a user turn that was never answered.
\<close>

theorem guardrail_violation_discards_user_turn_counterexample:
  "fst (chat (table_decoders [] []) sample_repr flaky_post local_client fresh_session
          ''hello'' None) = Inl (APIError ''API error (500): internal failure'') \<and>
   is_guardrail_violation
     (fst (chat (table_decoders [] []) sample_repr flaky_post local_client session_after_failure
             ''mail me at a@b.c'' None)) \<and>
   cs_messages (snd (chat (table_decoders [] []) sample_repr flaky_post local_client
                       session_after_failure ''mail me at a@b.c'' None)) =
     [[(''role'', JStr ''user''), (''content'', JStr ''hello'')]] \<and>
   unanswered (cs_messages (snd (chat (table_decoders [] []) sample_repr flaky_post local_client
                       session_after_failure ''mail me at a@b.c'' None)))"
  by code_simp


lemma fresh_guardrail:
  "fst (chat (table_decoders [] []) sample_repr flaky_post local_client fresh_session
          ''mail me at a@b.c'' (Some ''Be brief'')) =
   Inl (GuardrailViolationError
          (gv_init ''LiteLLM has flagged this message due to policy violations''
             (Some [JStr ''pii/email'']) None None
             (Some (JObj [(''breakdown'', JArr scenario_breakdown)]))))"
  by code_simp

theorem guardrail_violation_discards_user_turn_witness:
  "is_guardrail_violation
     (fst (chat (table_decoders [] []) sample_repr flaky_post local_client fresh_session
             ''mail me at a@b.c'' (Some ''Be brief''))) \<and>
   cs_messages (snd (chat (table_decoders [] []) sample_repr flaky_post local_client fresh_session
                       ''mail me at a@b.c'' (Some ''Be brief''))) =
     [[(''role'', JStr ''system''), (''content'', JStr ''Be brief'')]] \<and>
   \<not> unanswered (cs_messages fresh_session) \<and>
   \<not> unanswered (cs_messages (snd (chat (table_decoders [] []) sample_repr flaky_post local_client
                       fresh_session ''mail me at a@b.c'' (Some ''Be brief''))))"
proof -
  have n: "new_system_turn fresh_session (Some ''Be brief'') =
             [[(''role'', JStr ''system''), (''content'', JStr ''Be brief'')]]"
    and e: "cs_messages fresh_session = []"
    by (simp_all add: new_system_turn_def fresh_session_def session_init_def)
  from guardrail_violation_discards_user_turn [OF fresh_guardrail] fresh_guardrail n e
  show ?thesis by (simp add: has_role_def)
qed

text \<open>
  C8. When the health check reports the gateway as running, \<^verbatim>\<open>start\<close> returns true
  whatever \<^verbatim>\<open>wait_for_ready\<close> and \<^verbatim>\<open>timeout\<close> are; the manager is unchanged and the world has
  seen the one health request only: no process is spawned and no time passes.
\<close>

theorem start_short_circuits_when_running:
  assumes "fst (is_running env w) = Inr True"
  shows "start env stop m w wait_for_ready timeout =
           (Inr True, m, w\<lparr>requests_made := Suc (requests_made w)\<rparr>)"
  using assms by (simp add: start_def is_running_def)

theorem start_short_circuits_when_running_witness:
  "fst (is_running healthy_env idle_world) = Inr True \<and>
   start healthy_env (\<lambda>mw. mw) idle_manager idle_world True 30 =
     (Inr True, idle_manager, idle_world\<lparr>requests_made := Suc (requests_made idle_world)\<rparr>) \<and>
   start healthy_env (\<lambda>mw. mw) idle_manager idle_world False 0 =
     (Inr True, idle_manager, idle_world\<lparr>requests_made := Suc (requests_made idle_world)\<rparr>) \<and>
   spawned (idle_world\<lparr>requests_made := Suc (requests_made idle_world)\<rparr>) = [] \<and>
   process idle_manager = None"
proof -
  have r: "fst (is_running healthy_env idle_world) = Inr True"
    by (simp add: is_running_def healthy_reply_def healthy_env_def ok_response_def)
  from start_short_circuits_when_running [OF r, of "\<lambda>mw. mw" idle_manager True 30]
    start_short_circuits_when_running [OF r, of "\<lambda>mw. mw" idle_manager False 0] r
  show ?thesis by (simp add: idle_world_def idle_manager_def)
qed

text \<open>
  C9. When the GET to the health endpoint (timeout 2 seconds) yields a response or fails
  with an exception of \<^verbatim>\<open>requests\<close>, both \<^verbatim>\<open>health_check\<close> and \<^verbatim>\<open>is_running\<close> return a
  boolean, which is true exactly when the response has status 200.
\<close>

theorem health_checks_return_boolean:
  assumes "network_outcome (get (base_url client @ ''/health'') 2)"
    and "network_outcome (health_get env (requests_made w) PROXY_HEALTH_ENDPOINT 2)"
  shows "health_check get client = Inr (answered_200 (get (base_url client @ ''/health'') 2)) \<and>
         fst (is_running env w) =
           Inr (answered_200 (health_get env (requests_made w) PROXY_HEALTH_ENDPOINT 2))"
  using assms
  by (auto simp: health_check_def is_running_def healthy_reply_def network_outcome_def
      answered_200_def split: sum.splits)

theorem health_checks_return_boolean_witness:
  "health_check refused_get local_client = Inr False \<and>
   health_check slow_get local_client = Inr False \<and>
   health_check ok_get local_client = Inr True \<and>
   fst (is_running healthy_env idle_world) = Inr True"
proof -
  have n: "network_outcome (refused_get (base_url local_client @ ''/health'') 2)"
    "network_outcome (slow_get (base_url local_client @ ''/health'') 2)"
    "network_outcome (ok_get (base_url local_client @ ''/health'') 2)"
    "network_outcome (health_get healthy_env (requests_made idle_world) PROXY_HEALTH_ENDPOINT 2)"
    by (simp_all add: network_outcome_def refused_get_def slow_get_def ok_get_def healthy_env_def)
  have a: "\<not> answered_200 (refused_get (base_url local_client @ ''/health'') 2)"
    "\<not> answered_200 (slow_get (base_url local_client @ ''/health'') 2)"
    "answered_200 (ok_get (base_url local_client @ ''/health'') 2)"
    "answered_200 (health_get healthy_env (requests_made idle_world) PROXY_HEALTH_ENDPOINT 2)"
    by (simp_all add: answered_200_def refused_get_def slow_get_def ok_get_def healthy_env_def
        ok_response_def local_client_def client_init_def rstrip_def)
  from health_checks_return_boolean [where get = refused_get and client = local_client
        and env = healthy_env and w = idle_world]
    health_checks_return_boolean [where get = slow_get and client = local_client
        and env = healthy_env and w = idle_world]
    health_checks_return_boolean [where get = ok_get and client = local_client
        and env = healthy_env and w = idle_world] n a
  show ?thesis by simp
qed

end
